theory Spec2Isabelle
  imports Main
begin

section \<open>Execution identifiers\<close>

text \<open>
  The orchestrator mints the identifier with
  \<^verbatim>\<open>cline.lastMessageTs?.toString() ?? Date.now().toString()\<close>.
  Both sources are millisecond timestamps, modelled as \<open>int\<close>; \<open>toString\<close> is the
  decimal rendering that JavaScript gives to an integral number (magnitudes below
  \<open>10^21\<close>, which covers every timestamp).
\<close>

definition digit_char :: "nat \<Rightarrow> char" where
  "digit_char d = ''0123456789'' ! d"

fun digits :: "nat \<Rightarrow> string" where
  "digits n = (if n < 10 then [digit_char n] else digits (n div 10) @ [digit_char (n mod 10)])"

declare digits.simps [simp del]

definition toString :: "int \<Rightarrow> string" where
  "toString i = (if i < 0 then CHR ''-'' # digits (nat (- i)) else digits (nat i))"

definition mintExecutionId :: "int option \<Rightarrow> int \<Rightarrow> string" where
  "mintExecutionId lastTs now = (case lastTs of Some ts \<Rightarrow> toString ts | None \<Rightarrow> toString now)"

text \<open>Reading a decimal rendering back; used only to show that \<open>toString\<close> loses nothing.\<close>

definition digit_val :: "char \<Rightarrow> nat" where
  "digit_val ch = of_char ch - 48"

definition undigits :: "string \<Rightarrow> nat" where
  "undigits s = foldl (\<lambda>acc ch. 10 * acc + digit_val ch) 0 s"

definition fromString :: "string \<Rightarrow> int" where
  "fromString s = (case s of
      [] \<Rightarrow> 0
    | ch # r \<Rightarrow> if ch = CHR ''-'' then - int (undigits r) else int (undigits s))"

section \<open>The invocation orchestrator (\<open>useMcpToolTool\<close>)\<close>

subsection \<open>Data\<close>

text \<open>JavaScript truthiness of an optional string (\<open>undefined\<close> and the empty string
  are falsy), and the text that an optional string adds in a concatenation.\<close>

fun truthy :: "string option \<Rightarrow> bool" where
  "truthy None = False"
| "truthy (Some s) = (s \<noteq> [])"

fun textOf :: "string option \<Rightarrow> string" where
  "textOf None = []"
| "textOf (Some s) = s"

text \<open>
  A resource is a JavaScript object: its own properties in insertion order, with distinct
  names. The properties of an MCP resource (\<open>uri\<close>, \<open>mimeType\<close>, \<open>text\<close>, \<open>blob\<close>)
  are strings.
\<close>

type_synonym resource = "(string \<times> string) list"

datatype content_item =
    TextItem string
  | ResourceItem resource
  | OtherItem

record tool_result =
  content :: "content_item list option"
  isError :: bool

datatype status_kind = Started | Output | Completed | Error

record McpExecutionStatus =
  executionId :: string
  status :: status_kind
  serverName :: "string option"
  toolName :: "string option"
  response :: "string option"
  error :: "string option"

text \<open>The payload of an approval request (\<open>ClineAskUseMcpServer\<close> with type \<open>use_mcp_tool\<close>):
  server name, tool name, raw arguments.\<close>

datatype ClineAskUseMcpServer = UseMcpTool "string option" "string option" "string option"

record ToolUse =
  server_name :: "string option"
  tool_name :: "string option"
  arguments :: "string option"
  partial :: bool

text \<open>
  The remote caller \<open>callTool\<close> either rejects (\<open>Inl\<close>, the exception text) or resolves to
  a result, which the code allows to be absent. \<open>providerRef\<close> is what
  \<open>cline.providerRef.deref()\<close> yields: no provider, or a provider whose \<open>getMcpHub()\<close>
  yields no hub or a hub.
\<close>

type_synonym 'j McpHub = "string \<Rightarrow> string \<Rightarrow> 'j option \<Rightarrow> string + tool_result option"

record 'j Task =
  consecutiveMistakeCount :: nat
  lastMessageTs :: "int option"
  providerRef :: "'j McpHub option option"

text \<open>Values handed to \<open>pushToolResult\<close>; each constructor stands for the text that the
  external formatter of that name builds.\<close>

datatype tool_response =
    MissingParamError string string
  | InvalidMcpToolArgumentError string string
  | ToolResult string

text \<open>Everything the function does to the outside, in the order it does it.\<close>

datatype 'j effect =
    Ask string ClineAskUseMcpServer bool
  | AskApproval string ClineAskUseMcpServer
  | RecordToolError string
  | SayAndCreateMissingParamError string string
  | Say string "string option"
  | PostMessageToWebview McpExecutionStatus
  | CallTool string string "'j option"
  | PushToolResult tool_response
  | HandleError string string

text \<open>
  The collaborators the function is called with or reaches for: \<open>JSON.parse\<close>
  (\<open>None\<close> when it throws), \<open>JSON.stringify(_, null, 2)\<close> on a resource, the approval
  callback, \<open>removeClosingTag\<close> and the clock.
\<close>

record 'j collaborators =
  JSON_parse :: "string \<Rightarrow> 'j option"
  JSON_stringify2 :: "resource \<Rightarrow> string"
  askApproval :: "string \<Rightarrow> ClineAskUseMcpServer \<Rightarrow> bool"
  removeClosingTag :: "string \<Rightarrow> string option \<Rightarrow> string"
  Date_now :: int

subsection \<open>Translating a result (lines 100 to 131)\<close>

text \<open>\<open>Array.prototype.join\<close>.\<close>

fun join :: "string \<Rightarrow> string list \<Rightarrow> string" where
  "join sep [] = []"
| "join sep [x] = x"
| "join sep (x # y # ys) = x @ sep @ join sep (y # ys)"

definition blankLine :: string where
  "blankLine = [CHR 0x0A, CHR 0x0A]"

text \<open>The rest pattern \<^verbatim>\<open>const { blob: _, ...rest } = item.resource\<close>.\<close>

definition restWithoutBlob :: "resource \<Rightarrow> resource" where
  "restWithoutBlob r = filter (\<lambda>kv. fst kv \<noteq> ''blob'') r"

fun itemText :: "'j collaborators \<Rightarrow> content_item \<Rightarrow> string" where
  "itemText c (TextItem t) = t"
| "itemText c (ResourceItem r) = JSON_stringify2 c (restWithoutBlob r)"
| "itemText c OtherItem = []"

definition outputTextOf :: "'j collaborators \<Rightarrow> content_item list \<Rightarrow> string" where
  "outputTextOf c items = join blankLine (filter (\<lambda>t. t \<noteq> []) (map (itemText c) items))"

subsection \<open>Reporting a result (lines 99 to 161)\<close>

text \<open>\<^verbatim>\<open>clineProvider?.postMessageToWebview(...)\<close>: nothing is posted without a provider.
  The JSON text of the envelope is kept as the status record it encodes.\<close>

definition post :: "'j Task \<Rightarrow> McpExecutionStatus \<Rightarrow> 'j effect list" where
  "post cline st = (case providerRef cline of None \<Rightarrow> [] | Some p \<Rightarrow> [PostMessageToWebview st])"

definition noResponse :: string where
  "noResponse = ''(No response)''"

definition outputStatus :: "string \<Rightarrow> string \<Rightarrow> McpExecutionStatus" where
  "outputStatus eid outputText =
     \<lparr>executionId = eid, status = Output, serverName = None, toolName = None,
      response = Some outputText, error = None\<rparr>"

definition completedStatus :: "string \<Rightarrow> bool \<Rightarrow> string \<Rightarrow> McpExecutionStatus" where
  "completedStatus eid isErr toolResultPretty =
     \<lparr>executionId = eid, status = (if isErr then Error else Completed),
      serverName = None, toolName = None,
      response = Some toolResultPretty,
      error = (if isErr then Some ''Error executing MCP tool'' else None)\<rparr>"

definition errorStatus :: "string \<Rightarrow> McpExecutionStatus" where
  "errorStatus eid =
     \<lparr>executionId = eid, status = Error, serverName = None, toolName = None,
      response = None, error = Some ''No response from MCP server''\<rparr>"

definition startedStatus :: "string \<Rightarrow> string \<Rightarrow> string \<Rightarrow> McpExecutionStatus" where
  "startedStatus eid sn tn =
     \<lparr>executionId = eid, status = Started, serverName = Some sn, toolName = Some tn,
      response = None, error = None\<rparr>"

text \<open>The output event, if any, and the value of \<open>toolResultPretty\<close> after line 132.\<close>

definition outputStep :: "'j collaborators \<Rightarrow> 'j Task \<Rightarrow> string \<Rightarrow> tool_result
    \<Rightarrow> 'j effect list \<times> string" where
  "outputStep c cline eid tr =
     (case content tr of
        None \<Rightarrow> ([], noResponse)
      | Some items \<Rightarrow>
          if 0 < length items then
            (let outputText = outputTextOf c items in
             if outputText \<noteq> [] then
               (post cline (outputStatus eid outputText),
                (if isError tr then ''Error:'' @ [CHR 0x0A] else []) @ outputText)
             else ([], noResponse))
          else ([], noResponse))"

definition reportToolResult :: "'j collaborators \<Rightarrow> 'j Task \<Rightarrow> string \<Rightarrow> tool_result option
    \<Rightarrow> 'j effect list" where
  "reportToolResult c cline eid toolResult =
     (case toolResult of
        Some tr \<Rightarrow>
          (let (sent, toolResultPretty) = outputStep c cline eid tr in
           sent
           @ post cline (completedStatus eid (isError tr) toolResultPretty)
           @ [Say ''mcp_server_response'' (Some toolResultPretty),
              PushToolResult (ToolResult toolResultPretty)])
      | None \<Rightarrow>
          post cline (errorStatus eid)
          @ [Say ''mcp_server_response'' (Some noResponse),
             PushToolResult (ToolResult noResponse)])"

subsection \<open>Pre-flight checks, approval and the call (lines 15 to 98)\<close>

definition missingParam :: "'j Task \<Rightarrow> string \<Rightarrow> 'j Task \<times> 'j effect list" where
  "missingParam cline p =
     (cline\<lparr>consecutiveMistakeCount := consecutiveMistakeCount cline + 1\<rparr>,
      [RecordToolError ''use_mcp_tool'',
       SayAndCreateMissingParamError ''use_mcp_tool'' p,
       PushToolResult (MissingParamError ''use_mcp_tool'' p)])"

text \<open>Lines 44 to 60: \<open>None\<close> when \<open>JSON.parse\<close> throws, otherwise the value of
  \<open>parsedArguments\<close> (absent when there is no argument text).\<close>

definition parseArguments :: "'j collaborators \<Rightarrow> string option \<Rightarrow> 'j option option" where
  "parseArguments c a =
     (case a of
        None \<Rightarrow> Some None
      | Some s \<Rightarrow>
          if s = [] then Some None
          else (case JSON_parse c s of None \<Rightarrow> None | Some j \<Rightarrow> Some (Some j)))"

definition invalidJsonSay :: "string \<Rightarrow> string" where
  "invalidJsonSay tn = ''Roo tried to use '' @ tn @ '' with an invalid JSON argument. Retrying...''"

text \<open>Lines 94 to 168: the remote call through the optional chain, then the report; a
  rejected call goes to \<open>handleError\<close> and nothing after it runs. The two reads of
  \<open>providerRef\<close> (lines 82 and 94) see the same provider. The other collaborators are
  taken to return normally.\<close>

definition callAndReport :: "'j collaborators \<Rightarrow> 'j Task \<Rightarrow> string \<Rightarrow> string \<Rightarrow> string
    \<Rightarrow> 'j option \<Rightarrow> 'j effect list" where
  "callAndReport c cline eid sn tn parsedArguments =
     (case providerRef cline of
        None \<Rightarrow> reportToolResult c cline eid None
      | Some None \<Rightarrow> reportToolResult c cline eid None
      | Some (Some hub) \<Rightarrow>
          CallTool sn tn parsedArguments #
          (case hub sn tn parsedArguments of
             Inl e \<Rightarrow> [HandleError ''executing MCP tool'' e]
           | Inr toolResult \<Rightarrow> reportToolResult c cline eid toolResult))"

definition useMcpToolTool :: "'j collaborators \<Rightarrow> 'j Task \<Rightarrow> ToolUse
    \<Rightarrow> 'j Task \<times> 'j effect list" where
  "useMcpToolTool c cline block =
     (if partial block then
        (cline,
         [Ask ''use_mcp_server''
            (UseMcpTool (Some (removeClosingTag c ''server_name'' (server_name block)))
                        (Some (removeClosingTag c ''tool_name'' (tool_name block)))
                        (Some (removeClosingTag c ''arguments'' (arguments block))))
            True])
      else
        (case server_name block of
           None \<Rightarrow> missingParam cline ''server_name''
         | Some sn \<Rightarrow>
             if sn = [] then missingParam cline ''server_name''
             else
               (case tool_name block of
                  None \<Rightarrow> missingParam cline ''tool_name''
                | Some tn \<Rightarrow>
                    if tn = [] then missingParam cline ''tool_name''
                    else
                      (case parseArguments c (arguments block) of
                         None \<Rightarrow>
                           (cline\<lparr>consecutiveMistakeCount := consecutiveMistakeCount cline + 1\<rparr>,
                            [RecordToolError ''use_mcp_tool'',
                             Say ''error'' (Some (invalidJsonSay tn)),
                             PushToolResult (InvalidMcpToolArgumentError sn tn)])
                       | Some parsedArguments \<Rightarrow>
                           (let cline' = cline\<lparr>consecutiveMistakeCount := 0\<rparr>;
                                completeMessage =
                                  UseMcpTool (Some sn) (Some tn) (arguments block);
                                eid = mintExecutionId (lastMessageTs cline') (Date_now c)
                            in if \<not> askApproval c ''use_mcp_server'' completeMessage then
                                 (cline', [AskApproval ''use_mcp_server'' completeMessage])
                               else
                                 (cline',
                                  [AskApproval ''use_mcp_server'' completeMessage,
                                   Say ''mcp_server_request_started'' None]
                                  @ post cline' (startedStatus eid sn tn)
                                  @ callAndReport c cline' eid sn tn parsedArguments))))))"

subsection \<open>Observations on a run\<close>

fun statusEvents :: "'j effect list \<Rightarrow> McpExecutionStatus list" where
  "statusEvents [] = []"
| "statusEvents (PostMessageToWebview e # es) = e # statusEvents es"
| "statusEvents (_ # es) = statusEvents es"

fun remoteCalls :: "'j effect list \<Rightarrow> (string \<times> string \<times> 'j option) list" where
  "remoteCalls [] = []"
| "remoteCalls (CallTool sn tn a # es) = (sn, tn, a) # remoteCalls es"
| "remoteCalls (_ # es) = remoteCalls es"

definition terminal :: "McpExecutionStatus \<Rightarrow> bool" where
  "terminal e = (status e = Completed \<or> status e = Error)"

text \<open>A complete block that passes the checks of lines 30 to 60, with the server name,
  the tool name and the decoded arguments that the rest of the function works with.\<close>

definition validRequest :: "'j collaborators \<Rightarrow> ToolUse \<Rightarrow> string \<Rightarrow> string \<Rightarrow> 'j option
    \<Rightarrow> bool" where
  "validRequest c block sn tn pa =
     (\<not> partial block \<and> server_name block = Some sn \<and> sn \<noteq> [] \<and>
      tool_name block = Some tn \<and> tn \<noteq> [] \<and>
      parseArguments c (arguments block) = Some pa)"

text \<open>The decision of the approval collaborator on the complete message of line 64.\<close>

definition approved :: "'j collaborators \<Rightarrow> ToolUse \<Rightarrow> bool" where
  "approved c block =
     askApproval c ''use_mcp_server''
       (UseMcpTool (server_name block) (tool_name block) (arguments block))"

text \<open>The texts that the content items of a result contribute, empty ones dropped.\<close>

definition nonEmptyTexts :: "'j collaborators \<Rightarrow> tool_result \<Rightarrow> string list" where
  "nonEmptyTexts c tr =
     (case content tr of
        None \<Rightarrow> []
      | Some items \<Rightarrow> filter (\<lambda>t. t \<noteq> []) (map (itemText c) items))"

text \<open>A result with the \<open>blob\<close> property of every resource taken away, and a remote caller
  whose results are so reduced.\<close>

fun eraseBlob :: "content_item \<Rightarrow> content_item" where
  "eraseBlob (ResourceItem r) = ResourceItem (restWithoutBlob r)"
| "eraseBlob item = item"

definition eraseBlobs :: "tool_result \<Rightarrow> tool_result" where
  "eraseBlobs tr = tr\<lparr>content := map_option (map eraseBlob) (content tr)\<rparr>"

definition blobFreeHub :: "'j McpHub \<Rightarrow> 'j McpHub" where
  "blobFreeHub hub = (\<lambda>sn tn a. map_sum id (map_option eraseBlobs) (hub sn tn a))"

section \<open>The execution state projector (\<open>McpExecution.onMessage\<close>)\<close>

text \<open>
  The component's property \<open>executionId\<close> and flag \<open>isArguments\<close>, and the three pieces
  of state that the handler reads or writes. A message of type \<open>mcpExecutionStatus\<close>
  carries what \<open>mcpExecutionStatusSchema.safeParse(safeJsonParse(text))\<close> makes of its
  text: \<open>None\<close> when validation fails. Each message is handled on the state that the
  previous one left.
\<close>

record McpExecutionProps =
  ownExecutionId :: string
  isArguments :: bool

record McpExecutionState =
  currentStatus :: "McpExecutionStatus option"
  responseText :: string
  argumentsText :: string

datatype ExtensionMessage =
    McpExecutionStatusMessage "McpExecutionStatus option"
  | OtherMessage

definition keepArguments :: "McpExecutionProps \<Rightarrow> McpExecutionState \<Rightarrow> McpExecutionState
    \<Rightarrow> McpExecutionState" where
  "keepArguments props old s =
     (if isArguments props \<and> argumentsText old = responseText old
      then s\<lparr>argumentsText := responseText old\<rparr> else s)"

definition onMessage :: "McpExecutionProps \<Rightarrow> McpExecutionState \<Rightarrow> ExtensionMessage
    \<Rightarrow> McpExecutionState" where
  "onMessage props s message =
     (case message of
        OtherMessage \<Rightarrow> s
      | McpExecutionStatusMessage result \<Rightarrow>
          (case result of
             None \<Rightarrow> s
           | Some data \<Rightarrow>
               if executionId data = ownExecutionId props then
                 (let s1 = s\<lparr>currentStatus := Some data\<rparr> in
                  if status data = Output \<and> truthy (response data) then
                    keepArguments props s
                      (s1\<lparr>responseText := responseText s @ textOf (response data)\<rparr>)
                  else if status data = Completed \<and> truthy (response data) then
                    keepArguments props s
                      (s1\<lparr>responseText := textOf (response data)\<rparr>)
                  else s1)
               else s))"

text \<open>The view that the component shows: the phase is the status of the last event taken
  (\<open>None\<close> before the first), the error is that event's, the accumulated response is
  \<open>responseText\<close>.\<close>

definition phase :: "McpExecutionState \<Rightarrow> status_kind option" where
  "phase s = map_option status (currentStatus s)"

definition viewError :: "McpExecutionState \<Rightarrow> string option" where
  "viewError s = (case currentStatus s of None \<Rightarrow> None | Some d \<Rightarrow> error d)"

section \<open>Concrete collaborators and inputs\<close>

text \<open>
  Inputs for the concrete runs below. \<open>prettyResource\<close> prints an object whose values are
  strings the way \<open>JSON.stringify(_, null, 2)\<close> does when no character needs escaping.
  The example collaborators decode every argument text, answer every approval request
  with \<open>ok\<close>, and read the clock at 1700000000123; the example task has shown a message
  at 1700000000000; the example remote caller returns \<open>r\<close> to every call.
\<close>

definition prettyMember :: "string \<times> string \<Rightarrow> string" where
  "prettyMember kv =
     ''  '' @ [CHR 0x22] @ fst kv @ [CHR 0x22] @ '': '' @ [CHR 0x22] @ snd kv @ [CHR 0x22]"

definition prettyResource :: "resource \<Rightarrow> string" where
  "prettyResource r =
     (if r = [] then ''{}''
      else ''{'' @ [CHR 0x0A] @ join ('','' @ [CHR 0x0A]) (map prettyMember r)
           @ [CHR 0x0A] @ ''}'')"

definition exampleCollaborators :: "bool \<Rightarrow> string collaborators" where
  "exampleCollaborators ok =
     \<lparr>JSON_parse = (\<lambda>s. Some s), JSON_stringify2 = prettyResource,
      askApproval = (\<lambda>t m. ok), removeClosingTag = (\<lambda>tag t. textOf t),
      Date_now = 1700000000123\<rparr>"

definition exampleTask :: "string McpHub option option \<Rightarrow> string Task" where
  "exampleTask p =
     \<lparr>consecutiveMistakeCount = 2, lastMessageTs = Some 1700000000000, providerRef = p\<rparr>"

definition exampleBlock :: "string option \<Rightarrow> string option \<Rightarrow> ToolUse" where
  "exampleBlock sn tn =
     \<lparr>server_name = sn, tool_name = tn, arguments = Some ''{}'', partial = False\<rparr>"

definition exampleHub :: "tool_result option \<Rightarrow> string McpHub" where
  "exampleHub r = (\<lambda>sn tn a. Inr r)"

definition exampleResource :: resource where
  "exampleResource =
     [(''uri'', ''file:///logo.png''), (''mimeType'', ''image/png''), (''blob'', ''iVBORw0KGgo='')]"

definition exampleView :: McpExecutionState where
  "exampleView =
     \<lparr>currentStatus = None, responseText = ''partial output'', argumentsText = ''{}''\<rparr>"

definition exampleProps :: McpExecutionProps where
  "exampleProps = \<lparr>ownExecutionId = ''1700000000000'', isArguments = False\<rparr>"

definition exampleEvent :: "status_kind \<Rightarrow> string option \<Rightarrow> string option
    \<Rightarrow> McpExecutionStatus" where
  "exampleEvent k r e =
     \<lparr>executionId = ''1700000000000'', status = k, serverName = None, toolName = None,
      response = r, error = e\<rparr>"

section \<open>Properties of the identifiers\<close>

lemma digit_cases:
  assumes "d < (10::nat)"
  shows "d \<in> {0, 1, 2, 3, 4, 5, 6, 7, 8, 9}"
  using assms by auto

lemma digit_val_digit_char: "d < 10 \<Longrightarrow> digit_val (digit_char d) = d"
  using digit_cases [of d] by (auto simp: digit_val_def digit_char_def)

lemma digit_char_not_minus: "d < 10 \<Longrightarrow> digit_char d \<noteq> CHR ''-''"
  using digit_cases [of d] by (auto simp: digit_char_def)

lemma undigits_snoc: "undigits (s @ [ch]) = 10 * undigits s + digit_val ch"
  by (simp add: undigits_def)

lemma undigits_digits: "undigits (digits n) = n"
proof (induction n rule: digits.induct)
  case (1 n)
  show ?case
  proof (cases "n < 10")
    case True
    then show ?thesis
      by (subst digits.simps) (simp add: undigits_def digit_val_digit_char)
  next
    case False
    with 1 have "undigits (digits (n div 10)) = n div 10" by simp
    with False show ?thesis
      by (subst digits.simps) (simp add: undigits_snoc digit_val_digit_char)
  qed
qed

lemma digits_no_minus: "CHR ''-'' \<notin> set (digits n)"
proof (induction n rule: digits.induct)
  case (1 n)
  show ?case
  proof (cases "n < 10")
    case True
    then show ?thesis
      using digit_char_not_minus [of n] by (subst digits.simps) auto
  next
    case False
    with 1 have "CHR ''-'' \<notin> set (digits (n div 10))" by simp
    with False show ?thesis
      using digit_char_not_minus [of "n mod 10"] by (subst digits.simps) auto
  qed
qed

lemma digits_not_Nil: "digits n \<noteq> []"
  by (subst digits.simps) simp

lemma fromString_toString: "fromString (toString i) = i"
proof (cases "i < 0")
  case True
  then show ?thesis
    by (simp add: fromString_def toString_def undigits_digits)
next
  case False
  obtain ch r where d: "digits (nat i) = ch # r"
    using digits_not_Nil [of "nat i"] by (cases "digits (nat i)") auto
  have "ch \<noteq> CHR ''-''"
    using digits_no_minus [of "nat i"] d by auto
  with False d show ?thesis
    using undigits_digits [of "nat i"] by (simp add: fromString_def toString_def)
qed

lemma toString_inj: "toString i = toString j \<longleftrightarrow> i = j"
  using fromString_toString by metis

section \<open>Properties of the orchestrator's runs\<close>

lemma join_eq_Nil: "\<forall>x \<in> set xs. x \<noteq> [] \<Longrightarrow> join sep xs = [] \<longleftrightarrow> xs = []"
  by (induction sep xs rule: join.induct) auto

lemma outputTextOf_eq_Nil:
  "outputTextOf c items = [] \<longleftrightarrow> filter (\<lambda>t. t \<noteq> []) (map (itemText c) items) = []"
  unfolding outputTextOf_def by (rule join_eq_Nil) simp

lemma outputStep_eq:
  "outputStep c cline eid tr =
     (if nonEmptyTexts c tr = [] then ([], noResponse)
      else (post cline (outputStatus eid (join blankLine (nonEmptyTexts c tr))),
            (if isError tr then ''Error:'' @ [CHR 0x0A] else [])
            @ join blankLine (nonEmptyTexts c tr)))"
proof (cases "content tr")
  case None
  then show ?thesis by (simp add: outputStep_def nonEmptyTexts_def)
next
  case (Some items)
  show ?thesis
  proof (cases "items = []")
    case True
    with Some show ?thesis by (simp add: outputStep_def nonEmptyTexts_def)
  next
    case False
    with Some outputTextOf_eq_Nil [of c items] show ?thesis
      by (simp add: outputStep_def nonEmptyTexts_def Let_def outputTextOf_def)
  qed
qed

lemma approved_run:
  assumes "validRequest c block sn tn pa" and "approved c block"
  shows "useMcpToolTool c cline block =
     (cline\<lparr>consecutiveMistakeCount := 0\<rparr>,
      [AskApproval ''use_mcp_server'' (UseMcpTool (Some sn) (Some tn) (arguments block)),
       Say ''mcp_server_request_started'' None]
      @ post cline (startedStatus (mintExecutionId (lastMessageTs cline) (Date_now c)) sn tn)
      @ callAndReport c (cline\<lparr>consecutiveMistakeCount := 0\<rparr>)
          (mintExecutionId (lastMessageTs cline) (Date_now c)) sn tn pa)"
  using assms
  by (simp add: validRequest_def approved_def useMcpToolTool_def Let_def post_def
      split: option.splits)

lemma declined_run:
  assumes "validRequest c block sn tn pa" and "\<not> approved c block"
  shows "useMcpToolTool c cline block =
     (cline\<lparr>consecutiveMistakeCount := 0\<rparr>,
      [AskApproval ''use_mcp_server'' (UseMcpTool (Some sn) (Some tn) (arguments block))])"
  using assms
  by (simp add: validRequest_def approved_def useMcpToolTool_def Let_def)

lemma returned_run:
  assumes "validRequest c block sn tn pa" and "approved c block"
    and "providerRef cline = Some (Some hub)" and "hub sn tn pa = Inr r"
  shows "snd (useMcpToolTool c cline block) =
      [AskApproval ''use_mcp_server'' (UseMcpTool (Some sn) (Some tn) (arguments block)),
       Say ''mcp_server_request_started'' None,
       PostMessageToWebview
         (startedStatus (mintExecutionId (lastMessageTs cline) (Date_now c)) sn tn),
       CallTool sn tn pa]
      @ reportToolResult c (cline\<lparr>consecutiveMistakeCount := 0\<rparr>)
          (mintExecutionId (lastMessageTs cline) (Date_now c)) r"
  using assms(3,4) by (simp add: approved_run [OF assms(1,2)] post_def callAndReport_def)

lemma statusEvents_report_some:
  assumes "providerRef cline = Some p"
  shows "statusEvents (reportToolResult c cline eid (Some tr)) =
     (if nonEmptyTexts c tr = [] then [completedStatus eid (isError tr) noResponse]
      else [outputStatus eid (join blankLine (nonEmptyTexts c tr)),
            completedStatus eid (isError tr)
              ((if isError tr then ''Error:'' @ [CHR 0x0A] else [])
               @ join blankLine (nonEmptyTexts c tr))])"
  using assms by (simp add: reportToolResult_def outputStep_eq post_def)

lemma statusEvents_report_none:
  assumes "providerRef cline = Some p"
  shows "statusEvents (reportToolResult c cline eid None) = [errorStatus eid]"
  using assms by (simp add: reportToolResult_def post_def)

lemma all_events_carry_id:
  "e \<in> set (statusEvents (snd (useMcpToolTool c cline block))) \<Longrightarrow>
   executionId e = mintExecutionId (lastMessageTs cline) (Date_now c)"
  by (auto simp: useMcpToolTool_def missingParam_def Let_def post_def callAndReport_def
      reportToolResult_def outputStep_def startedStatus_def outputStatus_def
      completedStatus_def errorStatus_def
      split: if_splits option.splits sum.splits prod.splits)

text \<open>Erasing the \<open>blob\<close> properties from what the remote caller returns changes nothing
  of what a run does.\<close>

lemma restWithoutBlob_idem: "restWithoutBlob (restWithoutBlob r) = restWithoutBlob r"
  by (simp add: restWithoutBlob_def)

lemma itemText_eraseBlob: "itemText c (eraseBlob item) = itemText c item"
  by (cases item) (simp_all add: restWithoutBlob_idem)

lemma outputTextOf_eraseBlob: "outputTextOf c (map eraseBlob items) = outputTextOf c items"
  by (simp add: outputTextOf_def comp_def itemText_eraseBlob)

lemma outputStep_eraseBlobs:
  "(providerRef cline = None \<longleftrightarrow> providerRef cline' = None) \<Longrightarrow>
   outputStep c cline' eid (eraseBlobs tr) = outputStep c cline eid tr"
  by (cases "content tr")
     (auto simp: outputStep_def eraseBlobs_def outputTextOf_eraseBlob post_def Let_def
       split: option.splits)

lemma reportToolResult_eraseBlobs:
  "(providerRef cline = None \<longleftrightarrow> providerRef cline' = None) \<Longrightarrow>
   reportToolResult c cline' eid (map_option eraseBlobs r) = reportToolResult c cline eid r"
proof (cases r)
  case None
  assume "providerRef cline = None \<longleftrightarrow> providerRef cline' = None"
  with None show ?thesis
    by (auto simp: reportToolResult_def post_def split: option.splits)
next
  case (Some tr)
  assume p: "providerRef cline = None \<longleftrightarrow> providerRef cline' = None"
  have e: "isError (eraseBlobs tr) = isError tr" by (simp add: eraseBlobs_def)
  from p have "post cline' = post cline"
    by (auto simp: post_def fun_eq_iff split: option.splits)
  with Some e outputStep_eraseBlobs [OF p, of c eid tr] show ?thesis
    by (simp add: reportToolResult_def)
qed

lemma map_of_restWithoutBlob: "k \<noteq> ''blob'' \<Longrightarrow> map_of (restWithoutBlob r) k = map_of r k"
  by (induction r) (auto simp: restWithoutBlob_def)

lemma blobFreeHub_apply:
  "blobFreeHub hub sn tn pa = map_sum id (map_option eraseBlobs) (hub sn tn pa)"
  by (simp add: blobFreeHub_def)

lemma blobFree_run:
  "snd (useMcpToolTool c (cline\<lparr>providerRef := Some (Some (blobFreeHub hub))\<rparr>) block) =
   snd (useMcpToolTool c (cline\<lparr>providerRef := Some (Some hub)\<rparr>) block)"
proof -
  have r: "reportToolResult c
             (cline\<lparr>providerRef := Some (Some (blobFreeHub hub)), consecutiveMistakeCount := 0\<rparr>)
             eid (map_option eraseBlobs x) =
           reportToolResult c
             (cline\<lparr>providerRef := Some (Some hub), consecutiveMistakeCount := 0\<rparr>) eid x"
    for eid x
    by (rule reportToolResult_eraseBlobs) simp
  have "callAndReport c
          (cline\<lparr>providerRef := Some (Some (blobFreeHub hub)), consecutiveMistakeCount := 0\<rparr>)
          eid sn tn pa =
        callAndReport c
          (cline\<lparr>providerRef := Some (Some hub), consecutiveMistakeCount := 0\<rparr>)
          eid sn tn pa"
    for eid sn tn pa
    by (cases "hub sn tn pa") (simp_all add: callAndReport_def blobFreeHub_apply r)
  then show ?thesis
    by (simp add: useMcpToolTool_def missingParam_def Let_def post_def
        split: option.splits)
qed

lemma itemText_cases:
  "itemText c item =
     (case item of TextItem t \<Rightarrow> t
      | ResourceItem q \<Rightarrow> JSON_stringify2 c (restWithoutBlob q)
      | OtherItem \<Rightarrow> [])"
  by (cases item) simp_all

lemma nonEmptyTexts_resource:
  assumes "content tr = Some (before @ ResourceItem r # after)"
    and "JSON_stringify2 c (restWithoutBlob r) \<noteq> []"
  shows "nonEmptyTexts c tr =
     filter (\<lambda>t. t \<noteq> [])
       (map (\<lambda>item. case item of TextItem t \<Rightarrow> t
              | ResourceItem q \<Rightarrow> JSON_stringify2 c (restWithoutBlob q)
              | OtherItem \<Rightarrow> []) before)
     @ [JSON_stringify2 c (restWithoutBlob r)]
     @ filter (\<lambda>t. t \<noteq> [])
       (map (\<lambda>item. case item of TextItem t \<Rightarrow> t
              | ResourceItem q \<Rightarrow> JSON_stringify2 c (restWithoutBlob q)
              | OtherItem \<Rightarrow> []) after)"
proof -
  have "itemText c =
      (\<lambda>item. case item of TextItem t \<Rightarrow> t
              | ResourceItem q \<Rightarrow> JSON_stringify2 c (restWithoutBlob q)
              | OtherItem \<Rightarrow> [])"
    by (rule ext) (rule itemText_cases)
  then show ?thesis
    using assms by (simp add: nonEmptyTexts_def)
qed

section \<open>The concrete runs\<close>

lemma example_valid:
  "validRequest (exampleCollaborators ok) (exampleBlock (Some ''srv'') (Some tn)) ''srv'' tn
     (Some ''{}'') \<longleftrightarrow> tn \<noteq> []"
  by (simp add: validRequest_def exampleBlock_def exampleCollaborators_def parseArguments_def)

lemma example_approved: "approved (exampleCollaborators ok) b = ok"
  by (simp add: approved_def exampleCollaborators_def)

lemma example_id:
  "mintExecutionId (lastMessageTs (exampleTask p)) (Date_now (exampleCollaborators ok)) =
     ''1700000000000''"
  by (simp add: exampleTask_def mintExecutionId_def toString_def digits.simps digit_char_def)

lemma example_provider: "providerRef (exampleTask p) = p"
  by (simp add: exampleTask_def)

lemma example_no_result_run:
  assumes "tn \<noteq> []"
  shows "statusEvents (snd (useMcpToolTool (exampleCollaborators True)
       (exampleTask (Some (Some (exampleHub None)))) (exampleBlock (Some ''srv'') (Some tn)))) =
     [\<lparr>executionId = ''1700000000000'', status = Started, serverName = Some ''srv'',
       toolName = Some tn, response = None, error = None\<rparr>,
      \<lparr>executionId = ''1700000000000'', status = Error, serverName = None,
       toolName = None, response = None, error = Some ''No response from MCP server''\<rparr>]"
proof -
  have v: "validRequest (exampleCollaborators True) (exampleBlock (Some ''srv'') (Some tn))
      ''srv'' tn (Some ''{}'')"
    using assms by (simp add: example_valid)
  have a: "approved (exampleCollaborators True) (exampleBlock (Some ''srv'') (Some tn))"
    by (simp add: example_approved)
  have h: "exampleHub None ''srv'' tn (Some ''{}'') = Inr None"
    by (simp add: exampleHub_def)
  show ?thesis
    by (simp add: returned_run [OF v a example_provider [of "Some (Some (exampleHub None))"] h]
        statusEvents_report_none [where p = "Some (exampleHub None)"]
        example_provider example_id startedStatus_def errorStatus_def)
qed

section \<open>The claims about execution identifiers\<close>

text \<open>
  Two attempts that differ in the tool they invoke, made on a task whose last message
  has the same timestamp, carry the same executionId in their status events.
\<close>

theorem executionId_collision:
  "exampleBlock (Some ''srv'') (Some ''read'') \<noteq> exampleBlock (Some ''srv'') (Some ''write'') \<and>
   map executionId (statusEvents (snd (useMcpToolTool (exampleCollaborators True)
      (exampleTask (Some (Some (exampleHub None))))
      (exampleBlock (Some ''srv'') (Some ''read'')))))
     = [''1700000000000'', ''1700000000000''] \<and>
   map executionId (statusEvents (snd (useMcpToolTool (exampleCollaborators True)
      (exampleTask (Some (Some (exampleHub None))))
      (exampleBlock (Some ''srv'') (Some ''write'')))))
     = [''1700000000000'', ''1700000000000'']"
  by (simp add: example_no_result_run) (simp add: exampleBlock_def)

text \<open>
  C1, as the code has it: every status event of a run carries the executionId minted at
  line 71, which is the decimal text of the task's last message timestamp when there is
  one and of the clock reading otherwise; two minted executionIds are distinct exactly
  when these numbers are distinct, so attempts that read the same number share their
  executionId.
\<close>

theorem executionId_from_timestamp:
  "(\<forall>e \<in> set (statusEvents (snd (useMcpToolTool c cline block))).
      executionId e = mintExecutionId (lastMessageTs cline) (Date_now c)) \<and>
   (mintExecutionId ts now = mintExecutionId ts' now' \<longleftrightarrow>
      (case ts of Some t \<Rightarrow> t | None \<Rightarrow> now) = (case ts' of Some t \<Rightarrow> t | None \<Rightarrow> now'))"
proof
  show "\<forall>e \<in> set (statusEvents (snd (useMcpToolTool c cline block))).
      executionId e = mintExecutionId (lastMessageTs cline) (Date_now c)"
    using all_events_carry_id by blast
  show "mintExecutionId ts now = mintExecutionId ts' now' \<longleftrightarrow>
      (case ts of Some t \<Rightarrow> t | None \<Rightarrow> now) = (case ts' of Some t \<Rightarrow> t | None \<Rightarrow> now')"
    by (simp add: mintExecutionId_def toString_inj split: option.splits)
qed

theorem executionId_from_timestamp_witness:
  "statusEvents (snd (useMcpToolTool (exampleCollaborators True)
      (exampleTask (Some (Some (exampleHub None))))
      (exampleBlock (Some ''srv'') (Some ''read'')))) \<noteq> [] \<and>
   executionId (last (statusEvents (snd (useMcpToolTool (exampleCollaborators True)
      (exampleTask (Some (Some (exampleHub None))))
      (exampleBlock (Some ''srv'') (Some ''read''))))))
     = ''1700000000000'' \<and>
   mintExecutionId (Some 1700000000000) 1700000000123 = mintExecutionId None 1700000000000 \<and>
   mintExecutionId (Some 1700000000000) 1700000000123 \<noteq> mintExecutionId None 1700000000123"
proof -
  let ?evs = "statusEvents (snd (useMcpToolTool (exampleCollaborators True)
      (exampleTask (Some (Some (exampleHub None))))
      (exampleBlock (Some ''srv'') (Some ''read''))))"
  note t = executionId_from_timestamp [of "exampleCollaborators True"
      "exampleTask (Some (Some (exampleHub None)))" "exampleBlock (Some ''srv'') (Some ''read'')"]
  have "mintExecutionId (Some 1700000000000) 1700000000123 = mintExecutionId None 1700000000000"
    using t [of "Some 1700000000000" 1700000000123 None 1700000000000] by simp
  moreover have
    "mintExecutionId (Some 1700000000000) 1700000000123 \<noteq> mintExecutionId None 1700000000123"
    using t [of "Some 1700000000000" 1700000000123 None 1700000000123] by simp
  moreover have ne: "?evs \<noteq> []"
    by (simp add: example_no_result_run)
  moreover have "executionId (last ?evs) = ''1700000000000''"
  proof -
    from ne have "last ?evs \<in> set ?evs" by (rule last_in_set)
    with t [of None 0 None 0] have "executionId (last ?evs) =
        mintExecutionId (lastMessageTs (exampleTask (Some (Some (exampleHub None)))))
          (Date_now (exampleCollaborators True))"
      by blast
    then show ?thesis by (simp only: example_id)
  qed
  ultimately show ?thesis by blast
qed

section \<open>The claims about the translation of a result\<close>

text \<open>
  C2: for every approved invocation whose remote call returns content with a resource
  item, the \<open>output\<close> event and the terminal event carry, at the place of that item
  among the non-empty texts joined by a blank line, the pretty-printed object that is
  left of the resource when its \<open>blob\<close> property is taken away (the pretty-printer
  gives no empty text for an object). That object has no \<open>blob\<close> property and agrees
  with the resource on every other one. Nothing that the run does depends on a
  \<open>blob\<close>: it is the same, effect for effect, when the remote caller's results have
  the \<open>blob\<close> of every resource erased, so no status event carries one.
\<close>

theorem resource_blob_not_forwarded:
  fixes c :: "'j collaborators" and before after :: "content_item list" and r :: resource
  defines "texts \<equiv>
     filter (\<lambda>t. t \<noteq> [])
       (map (\<lambda>item. case item of TextItem t \<Rightarrow> t
              | ResourceItem q \<Rightarrow> JSON_stringify2 c (restWithoutBlob q)
              | OtherItem \<Rightarrow> []) before)
     @ [JSON_stringify2 c (restWithoutBlob r)]
     @ filter (\<lambda>t. t \<noteq> [])
       (map (\<lambda>item. case item of TextItem t \<Rightarrow> t
              | ResourceItem q \<Rightarrow> JSON_stringify2 c (restWithoutBlob q)
              | OtherItem \<Rightarrow> []) after)"
  assumes "validRequest c block sn tn pa" and "approved c block"
    and "providerRef cline = Some (Some hub)" and "hub sn tn pa = Inr (Some tr)"
    and "content tr = Some (before @ ResourceItem r # after)"
    and "JSON_stringify2 c (restWithoutBlob r) \<noteq> []"
  shows "statusEvents (snd (useMcpToolTool c cline block)) =
     [startedStatus (mintExecutionId (lastMessageTs cline) (Date_now c)) sn tn,
      \<lparr>executionId = mintExecutionId (lastMessageTs cline) (Date_now c), status = Output,
       serverName = None, toolName = None,
       response = Some (join blankLine texts), error = None\<rparr>,
      \<lparr>executionId = mintExecutionId (lastMessageTs cline) (Date_now c),
       status = (if isError tr then Error else Completed),
       serverName = None, toolName = None,
       response = Some ((if isError tr then ''Error:'' @ [CHR 0x0A] else [])
                        @ join blankLine texts),
       error = (if isError tr then Some ''Error executing MCP tool'' else None)\<rparr>] \<and>
   ''blob'' \<notin> fst ` set (restWithoutBlob r) \<and>
   (\<forall>k. k \<noteq> ''blob'' \<longrightarrow> map_of (restWithoutBlob r) k = map_of r k) \<and>
   snd (useMcpToolTool c (cline\<lparr>providerRef := Some (Some (blobFreeHub hub))\<rparr>) block) =
   snd (useMcpToolTool c cline block)"
proof -
  have n: "nonEmptyTexts c tr = texts"
    unfolding texts_def by (rule nonEmptyTexts_resource) fact+
  then have ne: "nonEmptyTexts c tr \<noteq> []"
    by (simp add: texts_def)
  have ev: "statusEvents (snd (useMcpToolTool c cline block)) =
     [startedStatus (mintExecutionId (lastMessageTs cline) (Date_now c)) sn tn,
      outputStatus (mintExecutionId (lastMessageTs cline) (Date_now c)) (join blankLine texts),
      completedStatus (mintExecutionId (lastMessageTs cline) (Date_now c)) (isError tr)
        ((if isError tr then ''Error:'' @ [CHR 0x0A] else []) @ join blankLine texts)]"
    using assms(4) ne
    by (simp add: returned_run [OF assms(2-5)]
        statusEvents_report_some [where p = "Some hub"] n)
  have same: "cline\<lparr>providerRef := Some (Some hub)\<rparr> = cline"
    using assms(4) by simp
  have run: "snd (useMcpToolTool c (cline\<lparr>providerRef := Some (Some (blobFreeHub hub))\<rparr>) block) =
      snd (useMcpToolTool c cline block)"
    using blobFree_run [where c = c and cline = cline and hub = hub and block = block]
      by (simp only: same)
  have key: "''blob'' \<notin> fst ` set (restWithoutBlob r)"
    by (auto simp: restWithoutBlob_def)
  from ev run key map_of_restWithoutBlob show ?thesis
    by (simp add: outputStatus_def completedStatus_def)
qed

theorem resource_blob_not_forwarded_witness:
  "validRequest (exampleCollaborators True) (exampleBlock (Some ''srv'') (Some ''read''))
     ''srv'' ''read'' (Some ''{}'') \<and>
   approved (exampleCollaborators True) (exampleBlock (Some ''srv'') (Some ''read'')) \<and>
   JSON_stringify2 (exampleCollaborators True) (restWithoutBlob exampleResource) =
     prettyResource [(''uri'', ''file:///logo.png''), (''mimeType'', ''image/png'')] \<and>
   prettyResource [(''uri'', ''file:///logo.png''), (''mimeType'', ''image/png'')] \<noteq> [] \<and>
   statusEvents (snd (useMcpToolTool (exampleCollaborators True)
      (exampleTask (Some (Some (exampleHub
         (Some \<lparr>content = Some [TextItem ''logo'', ResourceItem exampleResource, OtherItem],
                isError = False\<rparr>)))))
      (exampleBlock (Some ''srv'') (Some ''read'')))) =
     [\<lparr>executionId = ''1700000000000'', status = Started, serverName = Some ''srv'',
       toolName = Some ''read'', response = None, error = None\<rparr>,
      \<lparr>executionId = ''1700000000000'', status = Output, serverName = None,
       toolName = None,
       response = Some (''logo'' @ [CHR 0x0A, CHR 0x0A] @
         prettyResource [(''uri'', ''file:///logo.png''), (''mimeType'', ''image/png'')]),
       error = None\<rparr>,
      \<lparr>executionId = ''1700000000000'', status = Completed, serverName = None,
       toolName = None,
       response = Some (''logo'' @ [CHR 0x0A, CHR 0x0A] @
         prettyResource [(''uri'', ''file:///logo.png''), (''mimeType'', ''image/png'')]),
       error = None\<rparr>] \<and>
   map_of (restWithoutBlob exampleResource) ''uri'' = Some ''file:///logo.png'' \<and>
   map_of (restWithoutBlob exampleResource) ''blob'' = None"
proof -
  let ?res = "\<lparr>content = Some [TextItem ''logo'', ResourceItem exampleResource, OtherItem],
                isError = False\<rparr>"
  let ?pretty = "prettyResource [(''uri'', ''file:///logo.png''), (''mimeType'', ''image/png'')]"
  have v: "validRequest (exampleCollaborators True) (exampleBlock (Some ''srv'') (Some ''read''))
     ''srv'' ''read'' (Some ''{}'')"
    by (simp add: example_valid)
  have a: "approved (exampleCollaborators True) (exampleBlock (Some ''srv'') (Some ''read''))"
    by (simp add: example_approved)
  have p: "providerRef (exampleTask (Some (Some (exampleHub (Some ?res))))) =
      Some (Some (exampleHub (Some ?res)))"
    by (rule example_provider)
  have h: "exampleHub (Some ?res) ''srv'' ''read'' (Some ''{}'') = Inr (Some ?res)"
    by (simp add: exampleHub_def)
  have i: "content ?res = Some ([TextItem ''logo''] @ ResourceItem exampleResource # [OtherItem])"
    by simp
  have s: "JSON_stringify2 (exampleCollaborators True) (restWithoutBlob exampleResource) = ?pretty"
    by (simp add: exampleCollaborators_def exampleResource_def restWithoutBlob_def)
  have e: "?pretty \<noteq> []"
    by (simp add: prettyResource_def)
  from e s have e': "JSON_stringify2 (exampleCollaborators True) (restWithoutBlob exampleResource) \<noteq> []"
    by simp
  note t = resource_blob_not_forwarded [OF v a p h i e']
  have b: "map_of (restWithoutBlob exampleResource) ''blob'' = None"
    using t by (simp add: map_of_eq_None_iff)
  have u: "map_of (restWithoutBlob exampleResource) ''uri'' = Some ''file:///logo.png''"
    using t by (simp add: exampleResource_def)
  have "statusEvents (snd (useMcpToolTool (exampleCollaborators True)
      (exampleTask (Some (Some (exampleHub (Some ?res)))))
      (exampleBlock (Some ''srv'') (Some ''read'')))) =
     [\<lparr>executionId = ''1700000000000'', status = Started, serverName = Some ''srv'',
       toolName = Some ''read'', response = None, error = None\<rparr>,
      \<lparr>executionId = ''1700000000000'', status = Output, serverName = None,
       toolName = None, response = Some (''logo'' @ [CHR 0x0A, CHR 0x0A] @ ?pretty),
       error = None\<rparr>,
      \<lparr>executionId = ''1700000000000'', status = Completed, serverName = None,
       toolName = None, response = Some (''logo'' @ [CHR 0x0A, CHR 0x0A] @ ?pretty),
       error = None\<rparr>]"
    using t by (simp add: example_id startedStatus_def blankLine_def s)
  with v a s e b u show ?thesis by blast
qed

text \<open>
  In the example run whose remote call resolves to nothing, the terminal event is an
  \<open>error\<close> whose message is not the one the claim quotes.
\<close>

theorem no_result_message_differs:
  "status (last (statusEvents (snd (useMcpToolTool (exampleCollaborators True)
      (exampleTask (Some (Some (exampleHub None))))
      (exampleBlock (Some ''srv'') (Some ''read'')))))) = Error \<and>
   error (last (statusEvents (snd (useMcpToolTool (exampleCollaborators True)
      (exampleTask (Some (Some (exampleHub None))))
      (exampleBlock (Some ''srv'') (Some ''read'')))))) = Some ''No response from MCP server'' \<and>
   error (last (statusEvents (snd (useMcpToolTool (exampleCollaborators True)
      (exampleTask (Some (Some (exampleHub None))))
      (exampleBlock (Some ''srv'') (Some ''read'')))))) \<noteq> Some ''no response from remote server''"
  by (simp add: example_no_result_run)

text \<open>
  C3, as the code has it: for every approved invocation whose remote call returns no
  result at all, the status events are the \<open>started\<close> event and then exactly one terminal
  event, of status \<open>error\<close>, with the error message "No response from MCP server" and no
  response.
\<close>

theorem no_result_error_event:
  assumes "validRequest c block sn tn pa" and "approved c block"
    and "providerRef cline = Some (Some hub)" and "hub sn tn pa = Inr None"
  shows "statusEvents (snd (useMcpToolTool c cline block)) =
     [startedStatus (mintExecutionId (lastMessageTs cline) (Date_now c)) sn tn,
      \<lparr>executionId = mintExecutionId (lastMessageTs cline) (Date_now c), status = Error,
       serverName = None, toolName = None, response = None,
       error = Some ''No response from MCP server''\<rparr>] \<and>
     length (filter terminal (statusEvents (snd (useMcpToolTool c cline block)))) = 1"
  using assms(3)
  by (simp add: returned_run [OF assms] statusEvents_report_none [where p = "Some hub"]
      errorStatus_def startedStatus_def terminal_def)

theorem no_result_error_event_witness:
  "validRequest (exampleCollaborators True) (exampleBlock (Some ''srv'') (Some ''read''))
     ''srv'' ''read'' (Some ''{}'') \<and>
   approved (exampleCollaborators True) (exampleBlock (Some ''srv'') (Some ''read'')) \<and>
   exampleHub None ''srv'' ''read'' (Some ''{}'') = Inr None \<and>
   statusEvents (snd (useMcpToolTool (exampleCollaborators True)
      (exampleTask (Some (Some (exampleHub None))))
      (exampleBlock (Some ''srv'') (Some ''read'')))) =
     [\<lparr>executionId = ''1700000000000'', status = Started, serverName = Some ''srv'',
       toolName = Some ''read'', response = None, error = None\<rparr>,
      \<lparr>executionId = ''1700000000000'', status = Error, serverName = None,
       toolName = None, response = None, error = Some ''No response from MCP server''\<rparr>]"
proof -
  have v: "validRequest (exampleCollaborators True) (exampleBlock (Some ''srv'') (Some ''read''))
     ''srv'' ''read'' (Some ''{}'')"
    by (simp add: example_valid)
  have a: "approved (exampleCollaborators True) (exampleBlock (Some ''srv'') (Some ''read''))"
    by (simp add: example_approved)
  have p: "providerRef (exampleTask (Some (Some (exampleHub None)))) = Some (Some (exampleHub None))"
    by (rule example_provider)
  have h: "exampleHub None ''srv'' ''read'' (Some ''{}'') = Inr None"
    by (simp add: exampleHub_def)
  from no_result_error_event [OF v a p h] v a h show ?thesis
    by (simp add: example_id startedStatus_def)
qed

text \<open>
  C7: for every approved invocation whose remote call returns content with at least one
  non-empty text, the status events are \<open>started\<close>, one \<open>output\<close> whose response is the
  non-empty texts joined by a blank line, and the terminal event, whose response is that
  joined text (after \<open>Error:\<close> and a line break when the result is an error). For the
  content [text "A", text "B"] without error this is the text A, blank line, B in both
  events, and the terminal event is \<open>completed\<close>, as the concrete run after the theorem
  shows.
\<close>

theorem content_texts_joined:
  assumes "validRequest c block sn tn pa" and "approved c block"
    and "providerRef cline = Some (Some hub)" and "hub sn tn pa = Inr (Some tr)"
    and "nonEmptyTexts c tr \<noteq> []"
  shows "statusEvents (snd (useMcpToolTool c cline block)) =
     [startedStatus (mintExecutionId (lastMessageTs cline) (Date_now c)) sn tn,
      \<lparr>executionId = mintExecutionId (lastMessageTs cline) (Date_now c), status = Output,
       serverName = None, toolName = None,
       response = Some (join blankLine (nonEmptyTexts c tr)), error = None\<rparr>,
      \<lparr>executionId = mintExecutionId (lastMessageTs cline) (Date_now c),
       status = (if isError tr then Error else Completed),
       serverName = None, toolName = None,
       response = Some ((if isError tr then ''Error:'' @ [CHR 0x0A] else [])
                        @ join blankLine (nonEmptyTexts c tr)),
       error = (if isError tr then Some ''Error executing MCP tool'' else None)\<rparr>]"
  using assms(3,5)
  by (simp add: returned_run [OF assms(1-4)] statusEvents_report_some [where p = "Some hub"]
      outputStatus_def completedStatus_def)

theorem content_texts_joined_witness:
  "validRequest (exampleCollaborators True) (exampleBlock (Some ''srv'') (Some ''read''))
     ''srv'' ''read'' (Some ''{}'') \<and>
   approved (exampleCollaborators True) (exampleBlock (Some ''srv'') (Some ''read'')) \<and>
   nonEmptyTexts (exampleCollaborators True)
     \<lparr>content = Some [TextItem ''A'', TextItem ''B''], isError = False\<rparr> = [''A'', ''B''] \<and>
   statusEvents (snd (useMcpToolTool (exampleCollaborators True)
      (exampleTask (Some (Some (exampleHub
         (Some \<lparr>content = Some [TextItem ''A'', TextItem ''B''], isError = False\<rparr>)))))
      (exampleBlock (Some ''srv'') (Some ''read'')))) =
     [\<lparr>executionId = ''1700000000000'', status = Started, serverName = Some ''srv'',
       toolName = Some ''read'', response = None, error = None\<rparr>,
      \<lparr>executionId = ''1700000000000'', status = Output, serverName = None,
       toolName = None, response = Some [CHR ''A'', CHR 0x0A, CHR 0x0A, CHR ''B''],
       error = None\<rparr>,
      \<lparr>executionId = ''1700000000000'', status = Completed, serverName = None,
       toolName = None, response = Some [CHR ''A'', CHR 0x0A, CHR 0x0A, CHR ''B''],
       error = None\<rparr>]"
proof -
  let ?tr = "\<lparr>content = Some [TextItem ''A'', TextItem ''B''], isError = False\<rparr>"
  have v: "validRequest (exampleCollaborators True) (exampleBlock (Some ''srv'') (Some ''read''))
     ''srv'' ''read'' (Some ''{}'')"
    by (simp add: example_valid)
  have a: "approved (exampleCollaborators True) (exampleBlock (Some ''srv'') (Some ''read''))"
    by (simp add: example_approved)
  have p: "providerRef (exampleTask (Some (Some (exampleHub (Some ?tr))))) =
      Some (Some (exampleHub (Some ?tr)))"
    by (rule example_provider)
  have h: "exampleHub (Some ?tr) ''srv'' ''read'' (Some ''{}'') = Inr (Some ?tr)"
    by (simp add: exampleHub_def)
  have n: "nonEmptyTexts (exampleCollaborators True) ?tr = [''A'', ''B'']"
    by (simp add: nonEmptyTexts_def)
  then have n': "nonEmptyTexts (exampleCollaborators True) ?tr \<noteq> []" by simp
  from content_texts_joined [OF v a p h n'] v a n show ?thesis
    by (simp add: example_id startedStatus_def blankLine_def)
qed

text \<open>
  C10: for every approved invocation whose remote call returns a result with \<open>isError\<close>
  set, the one terminal status event is an \<open>error\<close> whose response is \<open>Error:\<close>, a line
  break and the blank-line-joined content text when some content item yields non-empty
  text, and the literal "(No response)" when none does.
\<close>

theorem error_result_response:
  assumes "validRequest c block sn tn pa" and "approved c block"
    and "providerRef cline = Some (Some hub)" and "hub sn tn pa = Inr (Some tr)"
    and "isError tr"
  shows "filter terminal (statusEvents (snd (useMcpToolTool c cline block))) =
     [\<lparr>executionId = mintExecutionId (lastMessageTs cline) (Date_now c), status = Error,
       serverName = None, toolName = None,
       response = Some (if nonEmptyTexts c tr = [] then ''(No response)''
                        else ''Error:'' @ [CHR 0x0A] @ join blankLine (nonEmptyTexts c tr)),
       error = Some ''Error executing MCP tool''\<rparr>] \<and>
     last (statusEvents (snd (useMcpToolTool c cline block))) =
       \<lparr>executionId = mintExecutionId (lastMessageTs cline) (Date_now c), status = Error,
       serverName = None, toolName = None,
       response = Some (if nonEmptyTexts c tr = [] then ''(No response)''
                        else ''Error:'' @ [CHR 0x0A] @ join blankLine (nonEmptyTexts c tr)),
       error = Some ''Error executing MCP tool''\<rparr>"
  using assms(3,5)
  by (simp add: returned_run [OF assms(1-4)] statusEvents_report_some [where p = "Some hub"]
      outputStatus_def completedStatus_def startedStatus_def terminal_def noResponse_def)

theorem error_result_response_witness:
  "validRequest (exampleCollaborators True) (exampleBlock (Some ''srv'') (Some ''read''))
     ''srv'' ''read'' (Some ''{}'') \<and>
   approved (exampleCollaborators True) (exampleBlock (Some ''srv'') (Some ''read'')) \<and>
   last (statusEvents (snd (useMcpToolTool (exampleCollaborators True)
      (exampleTask (Some (Some (exampleHub
         (Some \<lparr>content = Some [TextItem ''boom'', OtherItem, TextItem ''bang''],
                isError = True\<rparr>)))))
      (exampleBlock (Some ''srv'') (Some ''read''))))) =
     \<lparr>executionId = ''1700000000000'', status = Error, serverName = None, toolName = None,
      response = Some (''Error:'' @ [CHR 0x0A] @ ''boom'' @ [CHR 0x0A, CHR 0x0A] @ ''bang''),
      error = Some ''Error executing MCP tool''\<rparr> \<and>
   last (statusEvents (snd (useMcpToolTool (exampleCollaborators True)
      (exampleTask (Some (Some (exampleHub
         (Some \<lparr>content = Some [OtherItem], isError = True\<rparr>)))))
      (exampleBlock (Some ''srv'') (Some ''read''))))) =
     \<lparr>executionId = ''1700000000000'', status = Error, serverName = None, toolName = None,
      response = Some ''(No response)'', error = Some ''Error executing MCP tool''\<rparr>"
proof -
  let ?tr = "\<lparr>content = Some [TextItem ''boom'', OtherItem, TextItem ''bang''], isError = True\<rparr>"
  let ?quiet = "\<lparr>content = Some [OtherItem], isError = True\<rparr>"
  have v: "validRequest (exampleCollaborators True) (exampleBlock (Some ''srv'') (Some ''read''))
     ''srv'' ''read'' (Some ''{}'')"
    by (simp add: example_valid)
  have a: "approved (exampleCollaborators True) (exampleBlock (Some ''srv'') (Some ''read''))"
    by (simp add: example_approved)
  have p: "providerRef (exampleTask (Some (Some (exampleHub r)))) = Some (Some (exampleHub r))"
    for r by (rule example_provider)
  have h: "exampleHub r ''srv'' ''read'' (Some ''{}'') = Inr r" for r
    by (simp add: exampleHub_def)
  have n: "nonEmptyTexts (exampleCollaborators True) ?tr = [''boom'', ''bang'']"
    by (simp add: nonEmptyTexts_def)
  have n0: "nonEmptyTexts (exampleCollaborators True) ?quiet = []"
    by (simp add: nonEmptyTexts_def)
  have "last (statusEvents (snd (useMcpToolTool (exampleCollaborators True)
      (exampleTask (Some (Some (exampleHub (Some ?tr)))))
      (exampleBlock (Some ''srv'') (Some ''read''))))) =
     \<lparr>executionId = ''1700000000000'', status = Error, serverName = None, toolName = None,
      response = Some (''Error:'' @ [CHR 0x0A] @ ''boom'' @ [CHR 0x0A, CHR 0x0A] @ ''bang''),
      error = Some ''Error executing MCP tool''\<rparr>"
    using error_result_response [OF v a p h, of "?tr"]
    by (simp add: n example_id blankLine_def)
  moreover have "last (statusEvents (snd (useMcpToolTool (exampleCollaborators True)
      (exampleTask (Some (Some (exampleHub (Some ?quiet)))))
      (exampleBlock (Some ''srv'') (Some ''read''))))) =
     \<lparr>executionId = ''1700000000000'', status = Error, serverName = None, toolName = None,
      response = Some ''(No response)'', error = Some ''Error executing MCP tool''\<rparr>"
    using error_result_response [OF v a p h, of "?quiet"]
    by (simp add: n0 example_id)
  ultimately show ?thesis using v a by blast
qed

section \<open>The claims about the pre-flight checks and the approval\<close>

text \<open>
  C8: for every valid invocation request that the approval collaborator declines, the
  only thing the run does is ask for the approval: it posts no status event and never
  calls the remote tool.
\<close>

theorem declined_is_silent:
  assumes "validRequest c block sn tn pa" and "\<not> approved c block"
  shows "snd (useMcpToolTool c cline block) =
           [AskApproval ''use_mcp_server'' (UseMcpTool (Some sn) (Some tn) (arguments block))] \<and>
         statusEvents (snd (useMcpToolTool c cline block)) = [] \<and>
         remoteCalls (snd (useMcpToolTool c cline block)) = []"
  by (simp add: declined_run [OF assms])

theorem declined_is_silent_witness:
  "validRequest (exampleCollaborators False) (exampleBlock (Some ''srv'') (Some ''read''))
     ''srv'' ''read'' (Some ''{}'') \<and>
   \<not> approved (exampleCollaborators False) (exampleBlock (Some ''srv'') (Some ''read'')) \<and>
   snd (useMcpToolTool (exampleCollaborators False)
      (exampleTask (Some (Some (exampleHub None))))
      (exampleBlock (Some ''srv'') (Some ''read''))) =
     [AskApproval ''use_mcp_server'' (UseMcpTool (Some ''srv'') (Some ''read'') (Some ''{}''))] \<and>
   statusEvents (snd (useMcpToolTool (exampleCollaborators False)
      (exampleTask (Some (Some (exampleHub None))))
      (exampleBlock (Some ''srv'') (Some ''read'')))) = [] \<and>
   remoteCalls (snd (useMcpToolTool (exampleCollaborators False)
      (exampleTask (Some (Some (exampleHub None))))
      (exampleBlock (Some ''srv'') (Some ''read'')))) = []"
proof -
  have v: "validRequest (exampleCollaborators False) (exampleBlock (Some ''srv'') (Some ''read''))
     ''srv'' ''read'' (Some ''{}'')"
    by (simp add: example_valid)
  have a: "\<not> approved (exampleCollaborators False) (exampleBlock (Some ''srv'') (Some ''read''))"
    by (simp add: example_approved)
  from declined_is_silent [OF v a, of "exampleTask (Some (Some (exampleHub None)))"] v a
  show ?thesis by (simp add: exampleBlock_def)
qed

text \<open>
  C9: for every complete (not partial) invocation request whose server name is missing
  or empty, the run records a tool error and pushes the missing-parameter error for
  \<open>server_name\<close>, and nothing else; when the server name is there and the tool name is
  missing or empty, the same for \<open>tool_name\<close>. In both cases no status event is posted,
  the remote tool is not called, and the mistake counter goes up by one.
\<close>

theorem missing_parameter:
  assumes "\<not> partial block"
  shows "(\<not> truthy (server_name block) \<longrightarrow>
            snd (useMcpToolTool c cline block) =
              [RecordToolError ''use_mcp_tool'',
               SayAndCreateMissingParamError ''use_mcp_tool'' ''server_name'',
               PushToolResult (MissingParamError ''use_mcp_tool'' ''server_name'')]) \<and>
         (truthy (server_name block) \<and> \<not> truthy (tool_name block) \<longrightarrow>
            snd (useMcpToolTool c cline block) =
              [RecordToolError ''use_mcp_tool'',
               SayAndCreateMissingParamError ''use_mcp_tool'' ''tool_name'',
               PushToolResult (MissingParamError ''use_mcp_tool'' ''tool_name'')]) \<and>
         (\<not> truthy (server_name block) \<or> \<not> truthy (tool_name block) \<longrightarrow>
            statusEvents (snd (useMcpToolTool c cline block)) = [] \<and>
            remoteCalls (snd (useMcpToolTool c cline block)) = [] \<and>
            consecutiveMistakeCount (fst (useMcpToolTool c cline block)) =
              consecutiveMistakeCount cline + 1)"
proof -
  have s: "\<not> truthy (server_name block) \<Longrightarrow>
      useMcpToolTool c cline block = missingParam cline ''server_name''"
    using assms by (cases "server_name block") (simp_all add: useMcpToolTool_def)
  have t: "truthy (server_name block) \<Longrightarrow> \<not> truthy (tool_name block) \<Longrightarrow>
      useMcpToolTool c cline block = missingParam cline ''tool_name''"
    using assms
    by (cases "server_name block"; cases "tool_name block") (simp_all add: useMcpToolTool_def)
  show ?thesis
    using s t by (cases "truthy (server_name block)") (auto simp: missingParam_def)
qed

theorem missing_parameter_witness:
  "\<not> partial (exampleBlock (Some '''') (Some ''t'')) \<and>
   \<not> truthy (server_name (exampleBlock (Some '''') (Some ''t''))) \<and>
   snd (useMcpToolTool (exampleCollaborators True)
      (exampleTask (Some (Some (exampleHub None)))) (exampleBlock (Some '''') (Some ''t''))) =
     [RecordToolError ''use_mcp_tool'',
      SayAndCreateMissingParamError ''use_mcp_tool'' ''server_name'',
      PushToolResult (MissingParamError ''use_mcp_tool'' ''server_name'')] \<and>
   truthy (server_name (exampleBlock (Some ''srv'') None)) \<and>
   \<not> truthy (tool_name (exampleBlock (Some ''srv'') None)) \<and>
   snd (useMcpToolTool (exampleCollaborators True)
      (exampleTask (Some (Some (exampleHub None)))) (exampleBlock (Some ''srv'') None)) =
     [RecordToolError ''use_mcp_tool'',
      SayAndCreateMissingParamError ''use_mcp_tool'' ''tool_name'',
      PushToolResult (MissingParamError ''use_mcp_tool'' ''tool_name'')] \<and>
   statusEvents (snd (useMcpToolTool (exampleCollaborators True)
      (exampleTask (Some (Some (exampleHub None)))) (exampleBlock (Some '''') (Some ''t'')))) = [] \<and>
   remoteCalls (snd (useMcpToolTool (exampleCollaborators True)
      (exampleTask (Some (Some (exampleHub None)))) (exampleBlock (Some '''') (Some ''t'')))) = [] \<and>
   consecutiveMistakeCount (fst (useMcpToolTool (exampleCollaborators True)
      (exampleTask (Some (Some (exampleHub None)))) (exampleBlock (Some '''') (Some ''t'')))) = 3"
proof -
  have p: "\<not> partial (exampleBlock sn tn)" for sn tn
    by (simp add: exampleBlock_def)
  have s: "\<not> truthy (server_name (exampleBlock (Some '''') (Some ''t'')))"
    by (simp add: exampleBlock_def)
  have t: "truthy (server_name (exampleBlock (Some ''srv'') None))"
    "\<not> truthy (tool_name (exampleBlock (Some ''srv'') None))"
    by (simp_all add: exampleBlock_def)
  have c: "consecutiveMistakeCount (exampleTask (Some (Some (exampleHub None)))) + 1 = 3"
    by (simp add: exampleTask_def)
  from missing_parameter [OF p, of "Some ''''" "Some ''t''" "exampleCollaborators True"
      "exampleTask (Some (Some (exampleHub None)))"]
    missing_parameter [OF p, of "Some ''srv''" None "exampleCollaborators True"
      "exampleTask (Some (Some (exampleHub None)))"]
    p s t c
  show ?thesis by simp
qed

section \<open>The claims about the projector\<close>

text \<open>
  An \<open>error\<close> event for the component's own executionId that carries a response leaves
  the accumulated response as it was.
\<close>

theorem error_response_not_taken:
  "executionId (exampleEvent Error (Some ''Error: boom'') (Some ''Error executing MCP tool''))
     = ownExecutionId exampleProps \<and>
   response (exampleEvent Error (Some ''Error: boom'') (Some ''Error executing MCP tool''))
     = Some ''Error: boom'' \<and>
   responseText (onMessage exampleProps exampleView (McpExecutionStatusMessage (Some
     (exampleEvent Error (Some ''Error: boom'') (Some ''Error executing MCP tool'')))))
     = ''partial output'' \<and>
   responseText (onMessage exampleProps exampleView (McpExecutionStatusMessage (Some
     (exampleEvent Error (Some ''Error: boom'') (Some ''Error executing MCP tool'')))))
     \<noteq> ''Error: boom''"
  by (simp add: onMessage_def exampleProps_def exampleView_def exampleEvent_def)

text \<open>
  C4, as the code has it: for every \<open>error\<close> status event that the projector takes for
  its executionId, the resulting view has phase error and its error field is the event's
  error message; the accumulated response and the arguments text are left as they were,
  whether or not the event carries a response.
\<close>

theorem error_event_projection:
  assumes "executionId data = ownExecutionId props" and "status data = Error"
  shows "phase (onMessage props s (McpExecutionStatusMessage (Some data))) = Some Error \<and>
         viewError (onMessage props s (McpExecutionStatusMessage (Some data))) = error data \<and>
         responseText (onMessage props s (McpExecutionStatusMessage (Some data)))
           = responseText s \<and>
         argumentsText (onMessage props s (McpExecutionStatusMessage (Some data)))
           = argumentsText s"
  using assms by (simp add: onMessage_def phase_def viewError_def)

theorem error_event_projection_witness:
  "executionId (exampleEvent Error (Some ''Error: boom'') (Some ''Error executing MCP tool''))
     = ownExecutionId exampleProps \<and>
   phase (onMessage exampleProps exampleView (McpExecutionStatusMessage (Some
     (exampleEvent Error (Some ''Error: boom'') (Some ''Error executing MCP tool'')))))
     = Some Error \<and>
   viewError (onMessage exampleProps exampleView (McpExecutionStatusMessage (Some
     (exampleEvent Error (Some ''Error: boom'') (Some ''Error executing MCP tool'')))))
     = Some ''Error executing MCP tool'' \<and>
   responseText (onMessage exampleProps exampleView (McpExecutionStatusMessage (Some
     (exampleEvent Error (Some ''Error: boom'') (Some ''Error executing MCP tool'')))))
     = ''partial output''"
proof -
  let ?e = "exampleEvent Error (Some ''Error: boom'') (Some ''Error executing MCP tool'')"
  have i: "executionId ?e = ownExecutionId exampleProps"
    by (simp add: exampleEvent_def exampleProps_def)
  have k: "status ?e = Error"
    by (simp add: exampleEvent_def)
  have "error ?e = Some ''Error executing MCP tool''"
    by (simp add: exampleEvent_def)
  moreover have "responseText exampleView = ''partial output''"
    by (simp add: exampleView_def)
  ultimately show ?thesis
    using error_event_projection [OF i k, of exampleView] i by simp
qed

text \<open>
  A \<open>completed\<close> event whose response is the empty text does not replace the accumulated
  response.
\<close>

theorem completed_empty_response_kept:
  "executionId (exampleEvent Completed (Some '''') None) = ownExecutionId exampleProps \<and>
   response (exampleEvent Completed (Some '''') None) = Some '''' \<and>
   responseText (onMessage exampleProps exampleView (McpExecutionStatusMessage (Some
     (exampleEvent Completed (Some '''') None)))) = ''partial output'' \<and>
   responseText (onMessage exampleProps exampleView (McpExecutionStatusMessage (Some
     (exampleEvent Completed (Some '''') None)))) \<noteq> ''''"
  by (simp add: onMessage_def exampleProps_def exampleView_def exampleEvent_def)

text \<open>
  C5, as the code has it: for every \<open>output\<close> status event that the projector takes for
  its executionId, the accumulated response becomes the previous one followed by the
  event's response; for every \<open>completed\<close> event whose response is present and not empty,
  the accumulated response is replaced by the event's response; a \<open>completed\<close> event
  whose response is absent or empty leaves the accumulated response as it was.
\<close>

theorem output_appends_completed_replaces:
  assumes "executionId data = ownExecutionId props"
  shows "(status data = Output \<longrightarrow>
            responseText (onMessage props s (McpExecutionStatusMessage (Some data))) =
              responseText s @ textOf (response data)) \<and>
         (status data = Completed \<and> truthy (response data) \<longrightarrow>
            responseText (onMessage props s (McpExecutionStatusMessage (Some data))) =
              textOf (response data)) \<and>
         (status data = Completed \<and> \<not> truthy (response data) \<longrightarrow>
            responseText (onMessage props s (McpExecutionStatusMessage (Some data))) =
              responseText s)"
  using assms
  by (cases "response data") (auto simp: onMessage_def keepArguments_def Let_def)

theorem output_appends_completed_replaces_witness:
  "executionId (exampleEvent Output (Some '', more'') None) = ownExecutionId exampleProps \<and>
   responseText (onMessage exampleProps exampleView (McpExecutionStatusMessage (Some
     (exampleEvent Output (Some '', more'') None)))) = ''partial output, more'' \<and>
   responseText (onMessage exampleProps exampleView (McpExecutionStatusMessage (Some
     (exampleEvent Completed (Some ''final'') None)))) = ''final'' \<and>
   responseText (onMessage exampleProps exampleView (McpExecutionStatusMessage (Some
     (exampleEvent Completed None None)))) = ''partial output''"
proof -
  have i: "executionId (exampleEvent k r e) = ownExecutionId exampleProps" for k r e
    by (simp add: exampleEvent_def exampleProps_def)
  have k: "status (exampleEvent k r e) = k" for k r e
    by (simp add: exampleEvent_def)
  have r: "response (exampleEvent k r e) = r" for k r e
    by (simp add: exampleEvent_def)
  have v: "responseText exampleView = ''partial output''"
    by (simp add: exampleView_def)
  from output_appends_completed_replaces [OF i, of Output "Some '', more''" None exampleView]
    output_appends_completed_replaces [OF i, of Completed "Some ''final''" None exampleView]
    output_appends_completed_replaces [OF i, of Completed None None exampleView]
    i
  show ?thesis by (simp add: k r v)
qed

text \<open>
  C6: for every terminal status event (\<open>completed\<close> or \<open>error\<close>) and every state of the
  projector, handling the same event a second time gives the state that handling it
  once gives.
\<close>

theorem terminal_event_idempotent:
  assumes "terminal data"
  shows "onMessage props (onMessage props s (McpExecutionStatusMessage (Some data)))
           (McpExecutionStatusMessage (Some data)) =
         onMessage props s (McpExecutionStatusMessage (Some data))"
  using assms
  by (auto simp: onMessage_def keepArguments_def Let_def terminal_def)

theorem terminal_event_idempotent_witness:
  "terminal (exampleEvent Completed (Some ''final'') None) \<and>
   onMessage exampleProps
     (onMessage exampleProps exampleView
        (McpExecutionStatusMessage (Some (exampleEvent Completed (Some ''final'') None))))
     (McpExecutionStatusMessage (Some (exampleEvent Completed (Some ''final'') None))) =
   onMessage exampleProps exampleView
     (McpExecutionStatusMessage (Some (exampleEvent Completed (Some ''final'') None))) \<and>
   responseText (onMessage exampleProps exampleView
     (McpExecutionStatusMessage (Some (exampleEvent Completed (Some ''final'') None)))) = ''final''"
proof -
  have t: "terminal (exampleEvent Completed (Some ''final'') None)"
    by (simp add: terminal_def exampleEvent_def)
  have "responseText (onMessage exampleProps exampleView
     (McpExecutionStatusMessage (Some (exampleEvent Completed (Some ''final'') None)))) = ''final''"
    by (simp add: onMessage_def exampleProps_def exampleView_def exampleEvent_def
        keepArguments_def)
  with terminal_event_idempotent [OF t, of exampleProps exampleView] t
  show ?thesis by simp
qed

end
